theory Spec2Isabelle
  imports Main
begin

section \<open>JavaScript values and truthiness\<close>

text \<open>
  The identifiers, tokens and configuration values of the source are tested with the
  JavaScript negation \<^verbatim>\<open>!x\<close> and compared with \<^verbatim>\<open>===\<close>. The primitive
  values that can stand there are modelled by one datatype; equality of the datatype is
  strict equality of the primitives. A value is falsy when it is \<^verbatim>\<open>undefined\<close>,
  \<^verbatim>\<open>null\<close>, \<^verbatim>\<open>false\<close>, the number zero or the empty string.
\<close>

datatype jsval = JUndefined | JNull | JBool bool | JNum int | JStr string

fun truthy :: "jsval \<Rightarrow> bool" where
  "truthy JUndefined = False"
| "truthy JNull = False"
| "truthy (JBool b) = b"
| "truthy (JNum n) = (n \<noteq> 0)"
| "truthy (JStr s) = (s \<noteq> [])"

text \<open>A value of type \<^verbatim>\<open>string | undefined\<close>: \<open>None\<close> is \<^verbatim>\<open>undefined\<close>.\<close>

fun truthy_str :: "string option \<Rightarrow> bool" where
  "truthy_str None = False"
| "truthy_str (Some s) = (s \<noteq> [])"

section \<open>Failure signals\<close>

datatype trpc_code = UNAUTHORIZED | BAD_REQUEST | PRECONDITION_FAILED | FORBIDDEN | TOO_MANY_REQUESTS

text \<open>
  \<open>TRPCError code message\<close> is the error thrown by a gate. \<open>InputRejected\<close> is the
  failure of the input parser of a procedure, raised when the raw input does not match the
  declared schema.
\<close>

datatype abort = TRPCError trpc_code string | InputRejected

section \<open>The transport event and the session resolver\<close>

text \<open>
  The session record of the resolver carries the identifier at
  \<^verbatim>\<open>attributes.user.id\<close>.
\<close>

record SessionUser =
  user_id :: jsval

record UserAttributes =
  user :: SessionUser

record StoredSession =
  stored_attributes :: UserAttributes

record ResolvedUser =
  resolved_id :: jsval
  resolved_session :: StoredSession

text \<open>
  Of the event, the model keeps what the two files read and write: the cookies
  (\<^verbatim>\<open>getCookie(event, name)\<close>), the address that \<^verbatim>\<open>getRequestIP(event)\<close>
  returns, and the field \<^verbatim>\<open>event.context.user\<close>, where \<open>None\<close> is \<^verbatim>\<open>null\<close>.
\<close>

record H3Event =
  cookies :: "string \<rightharpoonup> string"
  requestIP :: "string option"
  context_user :: "ResolvedUser option"

definition getCookie :: "H3Event \<Rightarrow> string \<Rightarrow> string option" where
  "getCookie ev name = cookies ev name"

definition getRequestIP :: "H3Event \<Rightarrow> string option" where
  "getRequestIP ev = requestIP ev"

section \<open>Calls to collaborators\<close>

text \<open>
  A limiter is either the remote one, built from its options, or the no-op one.
\<close>

datatype limiter =
  Ratelimit (rl_limit: int) (rl_duration: string) (rl_namespace: string) (rl_rootKey: string)
| NoopRatelimit

text \<open>
  Every gate returns, next to its result, the list of the calls it made, in order: the scan
  of a member list, the call of the verification service, the call of a limiter, the lookup
  in the session store.
\<close>

datatype call =
  MembersFind jsval
| VerifyTurnstileToken string string
| UnkeyLimit limiter string
| StorageGetItem string

text \<open>
  The handler of the session resolver. The store \<^verbatim>\<open>useStorage('sessions')\<close> is a map
  from keys to session records.
\<close>

definition sessionHandler ::
  "(string \<rightharpoonup> StoredSession) \<Rightarrow> H3Event \<Rightarrow> call list \<times> H3Event" where
  "sessionHandler sessionStorage ev =
     (let sessionCookie = getCookie ev ''unsession'' in
      if \<not> truthy_str sessionCookie then ([], ev\<lparr>context_user := None\<rparr>)
      else
        (case sessionStorage (the sessionCookie) of
           None \<Rightarrow> ([StorageGetItem (the sessionCookie)], ev\<lparr>context_user := None\<rparr>)
         | Some sessionObject \<Rightarrow>
             ([StorageGetItem (the sessionCookie)],
              ev\<lparr>context_user :=
                   Some \<lparr>resolved_id = user_id (user (stored_attributes sessionObject)),
                         resolved_session = sessionObject\<rparr>\<rparr>)))"

section \<open>The request context of the procedures\<close>

text \<open>
  In the context of the procedures the session carries the identifier at
  \<^verbatim>\<open>attributes.account.id\<close>.
\<close>

record SessionAccount =
  session_account_id :: jsval

record SessionAttributes =
  attr_account :: SessionAccount

record DatabaseSession =
  attributes :: SessionAttributes

record UserContext =
  account_id :: jsval
  session :: DatabaseSession

record OrgMember =
  member_id :: jsval
  accountId :: jsval

text \<open>
  The organization object. The field \<open>memberId\<close> is the one the membership gate writes;
  it is \<^verbatim>\<open>undefined\<close> in an object that does not have it, as reading a field that an
  object lacks gives \<^verbatim>\<open>undefined\<close>. Every other field of the object is in the
  extension part of the record.
\<close>

record OrgContext =
  org_id :: jsval
  members :: "OrgMember list"
  memberId :: jsval

text \<open>
  The context: \<open>None\<close> in \<open>account\<close> and \<open>org\<close> is \<^verbatim>\<open>null\<close>. The type of the
  organization object is a parameter, since only the membership gate looks into it; the
  other fields of the context are the extension part of the record.
\<close>

record 'o Context =
  account :: "UserContext option"
  org :: "'o option"
  event :: H3Event

section \<open>Process-wide configuration and external services\<close>

record BillingConfig =
  enabled :: bool

record RuntimeConfig =
  billing :: "BillingConfig option"
  turnstile_secretKey :: "string option"
  unkey_rootKey :: "string option"

text \<open>
  What a gate can consult at the time of a call: the runtime configuration
  (\<^verbatim>\<open>useRuntimeConfig()\<close>), the runtime mode (\<^verbatim>\<open>process.env.NODE_ENV\<close>), the verdict
  of the verification service for a token and a secret, and the verdict of the quota
  service for the options of a limiter and a key.
\<close>

record Env =
  useRuntimeConfig :: RuntimeConfig
  NODE_ENV :: "string option"
  verifyTurnstileToken :: "string \<Rightarrow> string \<Rightarrow> bool"
  unkeyService :: "int \<Rightarrow> string \<Rightarrow> string \<Rightarrow> string \<Rightarrow> string \<Rightarrow> bool"

text \<open>
  Modelled from the spec: the class \<^verbatim>\<open>NoopRatelimit\<close> of the limiter library is not
  part of the source; the spec describes it as a no-op limiter that always succeeds. The
  remote limiter answers with the verdict of the quota service.
\<close>

fun limiter_limit :: "Env \<Rightarrow> limiter \<Rightarrow> string \<Rightarrow> bool" where
  "limiter_limit env (Ratelimit l d n r) key = unkeyService env l d n r key"
| "limiter_limit env NoopRatelimit key = True"

section \<open>The gates\<close>

text \<open>
  A gate takes the environment of the call, the input of the procedure and the context. It
  returns the calls it made and either the error it throws (\<open>Inl\<close>) or the context it
  hands to \<^verbatim>\<open>next\<close> (\<open>Inr\<close>).
\<close>

definition isAccountAuthenticated ::
  "Env \<Rightarrow> 'i \<Rightarrow> ('o, 'm) Context_scheme \<Rightarrow> call list \<times> (abort + ('o, 'm) Context_scheme)" where
  "isAccountAuthenticated env inp ctx =
     (case account ctx of
        None \<Rightarrow> ([], Inl (TRPCError UNAUTHORIZED ''You are not logged in, redirecting...''))
      | Some a \<Rightarrow>
          if \<not> truthy (session_account_id (attr_account (attributes (session a))))
             \<or> \<not> truthy (account_id a)
          then ([], Inl (TRPCError UNAUTHORIZED ''You are not logged in, redirecting...''))
          else ([], Inr (ctx\<lparr>account := Some a\<rparr>)))"

text \<open>\<^verbatim>\<open>ctx.account?.id\<close>, which is \<^verbatim>\<open>undefined\<close> when the account is null.\<close>

definition optional_account_id :: "('o, 'm) Context_scheme \<Rightarrow> jsval" where
  "optional_account_id ctx = (case account ctx of None \<Rightarrow> JUndefined | Some a \<Rightarrow> account_id a)"

text \<open>
  The function piped after the authentication gate in \<^verbatim>\<open>hasOrgSlug\<close>. The scan of the
  member list by \<^verbatim>\<open>find\<close> returns the first member that satisfies the test. The
  context handed on is \<^verbatim>\<open>{ ...ctx, org: { ...ctx.org, memberId: orgMembership.id } }\<close>:
  the two spreads copy every field, and \<open>memberId\<close> and \<open>org\<close> are then set.
\<close>

definition hasOrgSlug_piped ::
  "Env \<Rightarrow> 'i \<Rightarrow> ('z OrgContext_scheme, 'm) Context_scheme
     \<Rightarrow> call list \<times> (abort + ('z OrgContext_scheme, 'm) Context_scheme)" where
  "hasOrgSlug_piped env inp ctx =
     (case org ctx of
        None \<Rightarrow>
          ([], Inl (TRPCError BAD_REQUEST ''Invalid organization selected, redirecting...''))
      | Some g \<Rightarrow>
          (let accountId' = optional_account_id ctx;
               orgMembership = find (\<lambda>member. accountId member = accountId') (members g)
           in case orgMembership of
                None \<Rightarrow>
                  ([MembersFind accountId'],
                   Inl (TRPCError UNAUTHORIZED
                          ''You are not a member of this organization, redirecting...''))
              | Some m \<Rightarrow>
                  if \<not> truthy accountId'
                  then ([MembersFind accountId'],
                        Inl (TRPCError UNAUTHORIZED
                               ''You are not a member of this organization, redirecting...''))
                  else ([MembersFind accountId'],
                        Inr (ctx\<lparr>org := Some (g\<lparr>memberId := member_id m\<rparr>)\<rparr>))))"

text \<open>
  \<^verbatim>\<open>unstable_pipe\<close>: the second function runs on the context the first one forwards, and
  not at all when the first one throws.
\<close>

definition unstable_pipe ::
  "(Env \<Rightarrow> 'i \<Rightarrow> 'a \<Rightarrow> call list \<times> (abort + 'b))
     \<Rightarrow> (Env \<Rightarrow> 'i \<Rightarrow> 'b \<Rightarrow> call list \<times> (abort + 'c))
     \<Rightarrow> Env \<Rightarrow> 'i \<Rightarrow> 'a \<Rightarrow> call list \<times> (abort + 'c)" where
  "unstable_pipe m1 m2 env inp ctx =
     (case m1 env inp ctx of
        (t1, Inl e) \<Rightarrow> (t1, Inl e)
      | (t1, Inr ctx1) \<Rightarrow> (case m2 env inp ctx1 of (t2, r) \<Rightarrow> (t1 @ t2, r)))"

definition hasOrgSlug ::
  "Env \<Rightarrow> 'i \<Rightarrow> ('z OrgContext_scheme, 'm) Context_scheme
     \<Rightarrow> call list \<times> (abort + ('z OrgContext_scheme, 'm) Context_scheme)" where
  "hasOrgSlug = unstable_pipe isAccountAuthenticated hasOrgSlug_piped"

definition isEeEnabled :: "Env \<Rightarrow> 'i \<Rightarrow> 'c \<Rightarrow> call list \<times> (abort + 'c)" where
  "isEeEnabled env inp ctx =
     (if \<not> (case billing (useRuntimeConfig env) of None \<Rightarrow> False | Some b \<Rightarrow> enabled b)
      then ([], Inl (TRPCError PRECONDITION_FAILED
                       ''Enterprise Edition features are disabled on this server''))
      else ([], Inr ctx))"

text \<open>The input that the verification gate reads: \<^verbatim>\<open>{ turnstileToken?: string }\<close>.\<close>

record TurnstileInput =
  turnstileToken :: "string option"

definition turnstileTokenValidation ::
  "Env \<Rightarrow> TurnstileInput \<Rightarrow> 'c \<Rightarrow> call list \<times> (abort + 'c)" where
  "turnstileTokenValidation env inp ctx =
     (if \<not> truthy_str (turnstile_secretKey (useRuntimeConfig env)) then ([], Inr ctx)
      else if \<not> truthy_str (turnstileToken inp) then
        (if NODE_ENV env = Some ''development'' then ([], Inr ctx)
         else ([], Inl (TRPCError FORBIDDEN ''Missing Turnstile Verification Token'')))
      else
        (let response = the (turnstileToken inp);
             secretKey = the (turnstile_secretKey (useRuntimeConfig env));
             success = verifyTurnstileToken env response secretKey
         in if \<not> success
            then ([VerifyTurnstileToken response secretKey],
                  Inl (TRPCError BAD_REQUEST ''Invalid Turnstile Verification Token''))
            else ([VerifyTurnstileToken response secretKey], Inr ctx)))"

text \<open>
  \<^verbatim>\<open>createRatelimiter\<close>. The environment \<open>env0\<close> is the one in which the gate is built:
  the root credential is read from it and the limiter is chosen then. The environment
  \<open>env\<close> is the one of the call. \<^verbatim>\<open>ip || 'unknown'\<close> takes the literal when the address
  is \<^verbatim>\<open>undefined\<close> or the empty string.
\<close>

definition createRatelimiter ::
  "Env \<Rightarrow> int \<Rightarrow> string \<Rightarrow> string \<Rightarrow> Env \<Rightarrow> 'i \<Rightarrow> ('o, 'm) Context_scheme
     \<Rightarrow> call list \<times> (abort + ('o, 'm) Context_scheme)" where
  "createRatelimiter env0 limit duration namespace =
     (let rootKey = unkey_rootKey (useRuntimeConfig env0);
          unkey = (if truthy_str rootKey
                   then Ratelimit limit duration namespace (the rootKey)
                   else NoopRatelimit)
      in (\<lambda>env inp ctx.
            let ip = getRequestIP (event ctx);
                key = (if truthy_str ip then the ip else ''unknown'');
                success = limiter_limit env unkey key
            in if \<not> success
               then ([UnkeyLimit unkey key],
                     Inl (TRPCError TOO_MANY_REQUESTS
                            ''Too many requests, please try again later''))
               else ([UnkeyLimit unkey key], Inr ctx)))"

section \<open>Procedures\<close>

text \<open>
  A procedure takes the environment of the call, the raw input and the context the request
  starts with; it returns the calls made and either the error or the parsed input and the
  context that reach the handler of the route. The bare procedure has no parser and no
  gate: its input is \<^verbatim>\<open>undefined\<close>.
\<close>

definition procedure :: "Env \<Rightarrow> 'r \<Rightarrow> 'c \<Rightarrow> call list \<times> (abort + unit \<times> 'c)" where
  "procedure env raw ctx = ([], Inr ((), ctx))"

text \<open>\<^verbatim>\<open>.input(schema)\<close>: the raw input is parsed after the stages before it.\<close>

definition input ::
  "(Env \<Rightarrow> 'r \<Rightarrow> 'c \<Rightarrow> call list \<times> (abort + 'i \<times> 'd)) \<Rightarrow> ('r \<Rightarrow> 'j option)
     \<Rightarrow> Env \<Rightarrow> 'r \<Rightarrow> 'c \<Rightarrow> call list \<times> (abort + 'j \<times> 'd)" where
  "input p schema env raw ctx =
     (case p env raw ctx of
        (t, Inl e) \<Rightarrow> (t, Inl e)
      | (t, Inr (i, c)) \<Rightarrow>
          (case schema raw of
             None \<Rightarrow> (t, Inl InputRejected)
           | Some j \<Rightarrow> (t, Inr (j, c))))"

text \<open>\<^verbatim>\<open>.use(gate)\<close>: the gate runs after the stages before it, on what they forward.\<close>

definition use ::
  "(Env \<Rightarrow> 'r \<Rightarrow> 'c \<Rightarrow> call list \<times> (abort + 'i \<times> 'd))
     \<Rightarrow> (Env \<Rightarrow> 'i \<Rightarrow> 'd \<Rightarrow> call list \<times> (abort + 'e))
     \<Rightarrow> Env \<Rightarrow> 'r \<Rightarrow> 'c \<Rightarrow> call list \<times> (abort + 'i \<times> 'e)" where
  "use p gate env raw ctx =
     (case p env raw ctx of
        (t, Inl e) \<Rightarrow> (t, Inl e)
      | (t, Inr (i, c)) \<Rightarrow>
          (case gate env i c of
             (t', Inl e) \<Rightarrow> (t @ t', Inl e)
           | (t', Inr c') \<Rightarrow> (t @ t', Inr (i, c'))))"

text \<open>
  The raw input of a public route: an object, of which the model keeps the value of the
  field \<^verbatim>\<open>turnstileToken\<close> (\<^verbatim>\<open>undefined\<close> when the field is missing), or anything else.
  The schema \<^verbatim>\<open>z.object({ turnstileToken: z.string() })\<close> accepts an object whose field
  is a string.
\<close>

datatype rawInput = RawObject jsval | RawOther

fun turnstileSchema :: "rawInput \<Rightarrow> TurnstileInput option" where
  "turnstileSchema (RawObject (JStr s)) = Some \<lparr>turnstileToken = Some s\<rparr>"
| "turnstileSchema _ = None"

definition publicRateLimits :: "(string \<times> int \<times> string) list" where
  "publicRateLimits =
     [(''checkUsernameAvailability'', 100, ''1m''),
      (''checkPasswordStrength'', 100, ''1m''),
      (''signUpPasskeyStart'', 100, ''1m''),
      (''signUpPasskeyFinish'', 100, ''1m''),
      (''generatePasskeyChallenge'', 100, ''1m''),
      (''verifyPasskey'', 100, ''1m''),
      (''signUpWithPassword'', 100, ''1m''),
      (''signInWithPassword'', 100, ''1m''),
      (''validateInvite'', 100, ''1m'')]"

text \<open>
  The table of the public procedures, built by the fold over the entries of
  \<open>publicRateLimits\<close> in the environment \<open>env0\<close> of the start of the process.
\<close>

definition publicRateLimitedProcedure ::
  "Env \<Rightarrow> string \<rightharpoonup>
     (Env \<Rightarrow> rawInput \<Rightarrow> ('o, 'm) Context_scheme
        \<Rightarrow> call list \<times> (abort + TurnstileInput \<times> ('o, 'm) Context_scheme))" where
  "publicRateLimitedProcedure env0 =
     foldl (\<lambda>acc (key, limit, duration).
              acc(key \<mapsto>
                use (use (input procedure turnstileSchema) turnstileTokenValidation)
                    (createRatelimiter env0 limit duration (''public.'' @ key))))
       Map.empty publicRateLimits"

definition accountProcedure ::
  "Env \<Rightarrow> 'r \<Rightarrow> ('o, 'm) Context_scheme
     \<Rightarrow> call list \<times> (abort + unit \<times> ('o, 'm) Context_scheme)" where
  "accountProcedure = use procedure isAccountAuthenticated"

definition orgProcedure ::
  "Env \<Rightarrow> 'r \<Rightarrow> ('z OrgContext_scheme, 'm) Context_scheme
     \<Rightarrow> call list \<times> (abort + unit \<times> ('z OrgContext_scheme, 'm) Context_scheme)" where
  "orgProcedure = use procedure hasOrgSlug"

definition eeProcedure ::
  "Env \<Rightarrow> 'r \<Rightarrow> ('z OrgContext_scheme, 'm) Context_scheme
     \<Rightarrow> call list \<times> (abort + unit \<times> ('z OrgContext_scheme, 'm) Context_scheme)" where
  "eeProcedure = use orgProcedure isEeEnabled"

section \<open>Reading the outcome of a gate\<close>

definition forwards :: "call list \<times> (abort + 'c) \<Rightarrow> bool" where
  "forwards r = (case snd r of Inr c \<Rightarrow> True | Inl e \<Rightarrow> False)"

fun aborts_with :: "call list \<times> (abort + 'c) \<Rightarrow> trpc_code \<Rightarrow> bool" where
  "aborts_with (t, Inl (TRPCError c msg)) code = (c = code)"
| "aborts_with (t, Inl InputRejected) code = False"
| "aborts_with (t, Inr x) code = False"

text \<open>
  The reading of the rate limiter gate in which the root credential is consulted at every
  call: the limiter is chosen from the configuration of the call. It is compared with
  \<open>createRatelimiter\<close> below.
\<close>

definition ratelimiter_read_per_call ::
  "int \<Rightarrow> string \<Rightarrow> string \<Rightarrow> Env \<Rightarrow> 'i \<Rightarrow> ('o, 'm) Context_scheme
     \<Rightarrow> call list \<times> (abort + ('o, 'm) Context_scheme)" where
  "ratelimiter_read_per_call limit duration namespace env inp ctx =
     createRatelimiter env limit duration namespace env inp ctx"

section \<open>Sample requests\<close>

definition sample_event :: H3Event where
  "sample_event =
     \<lparr>cookies = [''unsession'' \<mapsto> ''s1''], requestIP = Some ''10.0.0.1'', context_user = None\<rparr>"

definition sample_account :: UserContext where
  "sample_account =
     \<lparr>account_id = JNum 7,
      session = \<lparr>attributes = \<lparr>attr_account = \<lparr>session_account_id = JNum 7\<rparr>\<rparr>\<rparr>\<rparr>"

definition sample_org :: OrgContext where
  "sample_org =
     \<lparr>org_id = JNum 1,
      members = [\<lparr>member_id = JNum 40, accountId = JNum 3\<rparr>,
                 \<lparr>member_id = JNum 41, accountId = JNum 7\<rparr>,
                 \<lparr>member_id = JNum 42, accountId = JNum 7\<rparr>],
      memberId = JUndefined\<rparr>"


definition sample_ctx :: "OrgContext Context" where
  "sample_ctx = \<lparr>account = Some sample_account, org = Some sample_org, event = sample_event\<rparr>"

text \<open>
  An environment with every feature configured, outside development mode; the
  verification service accepts the token \<open>''ok''\<close> only and the quota service rejects
  every key.
\<close>

definition sample_env :: Env where
  "sample_env =
     \<lparr>useRuntimeConfig =
        \<lparr>billing = Some \<lparr>enabled = True\<rparr>,
         turnstile_secretKey = Some ''secret'',
         unkey_rootKey = Some ''root''\<rparr>,
      NODE_ENV = Some ''production'',
      verifyTurnstileToken = (\<lambda>response secretKey. response = ''ok''),
      unkeyService = (\<lambda>l d n r key. False)\<rparr>"

text \<open>The same environment with nothing configured.\<close>

definition bare_env :: Env where
  "bare_env =
     sample_env\<lparr>useRuntimeConfig :=
        \<lparr>billing = None, turnstile_secretKey = None, unkey_rootKey = None\<rparr>\<rparr>"

definition sample_session :: StoredSession where
  "sample_session = \<lparr>stored_attributes = \<lparr>user = \<lparr>user_id = JNum 7\<rparr>\<rparr>\<rparr>"

section \<open>The authentication gate\<close>

text \<open>
  Claim C1. For every request context, the authentication gate aborts with UNAUTHORIZED
  if and only if the account of the context is null, or the identifier embedded in the
  session (\<^verbatim>\<open>account.session.attributes.account.id\<close>) is empty, or the top-level
  identifier (\<^verbatim>\<open>account.id\<close>) is empty; otherwise it forwards to the next stage, with
  the context it received, whose account is not null. An identifier is empty when it is
  falsy, which is what the gate tests.
\<close>

theorem isAccountAuthenticated_unauthorized_iff:
  "(aborts_with (isAccountAuthenticated env inp ctx) UNAUTHORIZED
      \<longleftrightarrow>
    (case account ctx of
       None \<Rightarrow> True
     | Some a \<Rightarrow> \<not> truthy (session_account_id (attr_account (attributes (session a))))
                 \<or> \<not> truthy (account_id a)))
   \<and>
   (\<not> aborts_with (isAccountAuthenticated env inp ctx) UNAUTHORIZED
      \<longrightarrow> isAccountAuthenticated env inp ctx = ([], Inr ctx) \<and> account ctx \<noteq> None)"
  by (simp add: isAccountAuthenticated_def split: option.split)

theorem isAccountAuthenticated_unauthorized_iff_witness:
  "isAccountAuthenticated sample_env () sample_ctx = ([], Inr sample_ctx)
   \<and> aborts_with (isAccountAuthenticated sample_env () (sample_ctx\<lparr>account := None\<rparr>))
         UNAUTHORIZED"
  using isAccountAuthenticated_unauthorized_iff [of sample_env "()" sample_ctx]
    isAccountAuthenticated_unauthorized_iff [of sample_env "()" "sample_ctx\<lparr>account := None\<rparr>"]
  by (simp add: sample_ctx_def sample_account_def)

section \<open>The organization membership gate\<close>

lemma find_hd_filter:
  "find P xs = (case filter P xs of [] \<Rightarrow> None | x # ys \<Rightarrow> Some x)"
  by (induction xs) simp_all

lemma filter_empty_no_match: "(filter P xs = []) = (\<not> (\<exists>x\<in>set xs. P x))"
  by (simp add: filter_empty_conv)

lemma authenticated_account:
  "forwards (isAccountAuthenticated env inp ctx) \<Longrightarrow>
     isAccountAuthenticated env inp ctx = ([], Inr ctx) \<and> truthy (optional_account_id ctx)"
  by (auto simp: forwards_def isAccountAuthenticated_def optional_account_id_def
           split: option.splits if_splits)

lemma unauthenticated_hasOrgSlug:
  "\<not> forwards (isAccountAuthenticated env inp ctx) \<Longrightarrow>
     hasOrgSlug env inp ctx =
       ([], Inl (TRPCError UNAUTHORIZED ''You are not logged in, redirecting...''))"
  by (auto simp: forwards_def isAccountAuthenticated_def hasOrgSlug_def unstable_pipe_def
           split: option.splits if_splits)

lemma authenticated_hasOrgSlug:
  "forwards (isAccountAuthenticated env inp ctx) \<Longrightarrow>
     hasOrgSlug env inp ctx = hasOrgSlug_piped env inp ctx"
  by (frule authenticated_account) (simp add: hasOrgSlug_def unstable_pipe_def split: prod.split)

text \<open>
  Claim C2. For every authenticated context with a selected organization: if no member of
  the member list of the organization has an \<open>accountId\<close> equal to the identifier of
  the authenticated account (or the account identifier is missing), the organization
  membership gate aborts with UNAUTHORIZED; if there is such a member, the gate forwards a
  context whose \<open>org.memberId\<close> is the identifier of the matched membership record, the
  first member of the list with that \<open>accountId\<close>. A context is authenticated when the
  authentication gate forwards it; a missing account identifier is a falsy one.
\<close>

theorem hasOrgSlug_membership:
  assumes "org ctx = Some g"
  shows
  "(\<not> truthy (optional_account_id ctx) \<longrightarrow>
      aborts_with (hasOrgSlug env inp ctx) UNAUTHORIZED
      \<and> aborts_with (hasOrgSlug_piped env inp ctx) UNAUTHORIZED)
   \<and>
   (forwards (isAccountAuthenticated env inp ctx) \<longrightarrow>
      (\<not> (\<exists>m \<in> set (members g). accountId m = optional_account_id ctx) \<longrightarrow>
         hasOrgSlug env inp ctx =
           ([MembersFind (optional_account_id ctx)],
            Inl (TRPCError UNAUTHORIZED
                   ''You are not a member of this organization, redirecting...'')))
      \<and>
      ((\<exists>m \<in> set (members g). accountId m = optional_account_id ctx) \<longrightarrow>
         (\<exists>ctx' g'.
            hasOrgSlug env inp ctx = ([MembersFind (optional_account_id ctx)], Inr ctx')
            \<and> org ctx' = Some g'
            \<and> memberId g' =
                member_id (hd (filter (\<lambda>m. accountId m = optional_account_id ctx) (members g))))))"
proof (intro conjI impI)
  assume f: "\<not> truthy (optional_account_id ctx)"
  then have "\<not> forwards (isAccountAuthenticated env inp ctx)"
    using authenticated_account [of env inp ctx] by auto
  then show "aborts_with (hasOrgSlug env inp ctx) UNAUTHORIZED"
    by (simp add: unauthenticated_hasOrgSlug)
  from f assms show "aborts_with (hasOrgSlug_piped env inp ctx) UNAUTHORIZED"
    by (simp add: hasOrgSlug_piped_def Let_def split: option.split)
next
  assume a: "forwards (isAccountAuthenticated env inp ctx)"
    and n: "\<not> (\<exists>m \<in> set (members g). accountId m = optional_account_id ctx)"
  from n have "find (\<lambda>m. accountId m = optional_account_id ctx) (members g) = None"
    by (simp add: find_None_iff)
  with assms show "hasOrgSlug env inp ctx =
           ([MembersFind (optional_account_id ctx)],
            Inl (TRPCError UNAUTHORIZED
                   ''You are not a member of this organization, redirecting...''))"
    by (simp add: authenticated_hasOrgSlug [OF a] hasOrgSlug_piped_def)
next
  assume a: "forwards (isAccountAuthenticated env inp ctx)"
    and y: "\<exists>m \<in> set (members g). accountId m = optional_account_id ctx"
  let ?P = "\<lambda>m. accountId m = optional_account_id ctx"
  from y have "filter ?P (members g) \<noteq> []"
    by (simp add: filter_empty_conv)
  then have "find ?P (members g) = Some (hd (filter ?P (members g)))"
    by (simp add: find_hd_filter split: list.split)
  moreover have "truthy (optional_account_id ctx)"
    using authenticated_account [OF a] by simp
  ultimately show "\<exists>ctx' g'.
            hasOrgSlug env inp ctx = ([MembersFind (optional_account_id ctx)], Inr ctx')
            \<and> org ctx' = Some g'
            \<and> memberId g' = member_id (hd (filter ?P (members g)))"
    using assms by (simp add: authenticated_hasOrgSlug [OF a] hasOrgSlug_piped_def Let_def)
qed

theorem hasOrgSlug_membership_witness:
  "(\<exists>ctx' g'. hasOrgSlug sample_env () sample_ctx = ([MembersFind (JNum 7)], Inr ctx')
       \<and> org ctx' = Some g' \<and> memberId g' = JNum 41)
   \<and> hasOrgSlug sample_env () (sample_ctx\<lparr>org := Some (sample_org\<lparr>members := []\<rparr>)\<rparr>) =
       ([MembersFind (JNum 7)],
        Inl (TRPCError UNAUTHORIZED
               ''You are not a member of this organization, redirecting...''))
   \<and> aborts_with (hasOrgSlug sample_env () (sample_ctx\<lparr>account := None\<rparr>)) UNAUTHORIZED"
  using hasOrgSlug_membership [of sample_ctx sample_org sample_env "()"]
    hasOrgSlug_membership [of "sample_ctx\<lparr>org := Some (sample_org\<lparr>members := []\<rparr>)\<rparr>"
      "sample_org\<lparr>members := []\<rparr>" sample_env "()"]
    hasOrgSlug_membership [of "sample_ctx\<lparr>account := None\<rparr>" sample_org sample_env "()"]
  by (simp add: sample_ctx_def sample_org_def sample_account_def optional_account_id_def
        forwards_def isAccountAuthenticated_def)

text \<open>
  Claim C3. For every authenticated request context with no selected organization (the
  field \<open>org\<close> is null), the organization membership gate aborts with BAD_REQUEST, and
  no scan of a member list occurs: the list of the calls made holds no \<open>MembersFind\<close>.
\<close>

theorem hasOrgSlug_no_org:
  "org ctx = None \<Longrightarrow>
     hasOrgSlug_piped env inp ctx =
       ([], Inl (TRPCError BAD_REQUEST ''Invalid organization selected, redirecting...''))
     \<and> (forwards (isAccountAuthenticated env inp ctx) \<longrightarrow>
          hasOrgSlug env inp ctx =
            ([], Inl (TRPCError BAD_REQUEST ''Invalid organization selected, redirecting...''))
          \<and> (\<forall>aid. MembersFind aid \<notin> set (fst (hasOrgSlug env inp ctx))))"
  by (simp add: authenticated_hasOrgSlug hasOrgSlug_piped_def)

theorem hasOrgSlug_no_org_witness:
  "hasOrgSlug sample_env () (sample_ctx\<lparr>org := None\<rparr>) =
     ([], Inl (TRPCError BAD_REQUEST ''Invalid organization selected, redirecting...''))"
  using hasOrgSlug_no_org [of "sample_ctx\<lparr>org := None\<rparr>" sample_env "()"]
  by (simp add: sample_ctx_def sample_account_def forwards_def isAccountAuthenticated_def)

section \<open>The bot-verification gate\<close>

text \<open>
  Claim C4. The bot-verification gate: if no verification secret is configured it
  forwards, whatever token is supplied; if a secret is configured and no token is
  supplied, it forwards in development mode and aborts with FORBIDDEN otherwise; if a token
  is supplied, it calls the external verifier with the token and the secret, aborts with
  BAD_REQUEST on an unsuccessful verdict and forwards the context unchanged otherwise. A
  secret is configured, and a token supplied, when it is a non-empty string, which is what
  the gate tests.
\<close>

theorem turnstileTokenValidation_cases:
  "(\<not> truthy_str (turnstile_secretKey (useRuntimeConfig env)) \<longrightarrow>
      turnstileTokenValidation env inp ctx = ([], Inr ctx))
   \<and>
   (truthy_str (turnstile_secretKey (useRuntimeConfig env)) \<and> \<not> truthy_str (turnstileToken inp) \<longrightarrow>
      (NODE_ENV env = Some ''development'' \<longrightarrow>
         turnstileTokenValidation env inp ctx = ([], Inr ctx))
      \<and> (NODE_ENV env \<noteq> Some ''development'' \<longrightarrow>
           turnstileTokenValidation env inp ctx =
             ([], Inl (TRPCError FORBIDDEN ''Missing Turnstile Verification Token''))))
   \<and>
   (\<forall>secretKey response.
      turnstile_secretKey (useRuntimeConfig env) = Some secretKey \<and> secretKey \<noteq> []
      \<and> turnstileToken inp = Some response \<and> response \<noteq> [] \<longrightarrow>
        fst (turnstileTokenValidation env inp ctx) = [VerifyTurnstileToken response secretKey]
        \<and> (\<not> verifyTurnstileToken env response secretKey \<longrightarrow>
             snd (turnstileTokenValidation env inp ctx) =
               Inl (TRPCError BAD_REQUEST ''Invalid Turnstile Verification Token''))
        \<and> (verifyTurnstileToken env response secretKey \<longrightarrow>
             snd (turnstileTokenValidation env inp ctx) = Inr ctx))"
  by (simp add: turnstileTokenValidation_def Let_def)

theorem turnstileTokenValidation_cases_witness:
  "turnstileTokenValidation bare_env \<lparr>turnstileToken = Some ''bad''\<rparr> sample_ctx = ([], Inr sample_ctx)
   \<and> turnstileTokenValidation sample_env \<lparr>turnstileToken = None\<rparr> sample_ctx =
       ([], Inl (TRPCError FORBIDDEN ''Missing Turnstile Verification Token''))
   \<and> turnstileTokenValidation (sample_env\<lparr>NODE_ENV := Some ''development''\<rparr>)
         \<lparr>turnstileToken = None\<rparr> sample_ctx = ([], Inr sample_ctx)
   \<and> turnstileTokenValidation sample_env \<lparr>turnstileToken = Some ''bad''\<rparr> sample_ctx =
       ([VerifyTurnstileToken ''bad'' ''secret''],
        Inl (TRPCError BAD_REQUEST ''Invalid Turnstile Verification Token''))
   \<and> turnstileTokenValidation sample_env \<lparr>turnstileToken = Some ''ok''\<rparr> sample_ctx =
       ([VerifyTurnstileToken ''ok'' ''secret''], Inr sample_ctx)"
  using
    turnstileTokenValidation_cases [of bare_env "\<lparr>turnstileToken = Some ''bad''\<rparr>" sample_ctx]
    turnstileTokenValidation_cases [of sample_env "\<lparr>turnstileToken = None\<rparr>" sample_ctx]
    turnstileTokenValidation_cases [of "sample_env\<lparr>NODE_ENV := Some ''development''\<rparr>"
      "\<lparr>turnstileToken = None\<rparr>" sample_ctx]
    turnstileTokenValidation_cases [of sample_env "\<lparr>turnstileToken = Some ''bad''\<rparr>" sample_ctx]
    turnstileTokenValidation_cases [of sample_env "\<lparr>turnstileToken = Some ''ok''\<rparr>" sample_ctx]
  by (simp add: sample_env_def bare_env_def prod_eq_iff)

section \<open>The rate limiter gate\<close>

text \<open>
  Claim C5. For every call through a rate limiter gate: the limiter is called with the
  address of the caller taken from the event, or with the literal \<open>''unknown''\<close> when
  there is none; on a failure verdict the gate aborts with TOO_MANY_REQUESTS; on success
  it forwards the context unchanged; and when no root credential is configured where the
  gate is built, the limiter is the no-op one, which always succeeds, so that the gate
  never rejects.
\<close>

theorem createRatelimiter_contract:
  "(let key = (case getRequestIP (event ctx) of
                 None \<Rightarrow> ''unknown''
               | Some ip \<Rightarrow> if ip = [] then ''unknown'' else ip);
        unkey = (case unkey_rootKey (useRuntimeConfig env0) of
                   None \<Rightarrow> NoopRatelimit
                 | Some rootKey \<Rightarrow>
                     if rootKey = [] then NoopRatelimit
                     else Ratelimit limit duration namespace rootKey);
        r = createRatelimiter env0 limit duration namespace env inp ctx
    in fst r = [UnkeyLimit unkey key]
       \<and> (\<not> limiter_limit env unkey key \<longrightarrow>
            snd r = Inl (TRPCError TOO_MANY_REQUESTS ''Too many requests, please try again later''))
       \<and> (limiter_limit env unkey key \<longrightarrow> snd r = Inr ctx)
       \<and> (\<not> truthy_str (unkey_rootKey (useRuntimeConfig env0)) \<longrightarrow>
            r = ([UnkeyLimit NoopRatelimit key], Inr ctx)))"
  by (simp add: createRatelimiter_def Let_def split: option.split)

theorem createRatelimiter_contract_witness:
  "createRatelimiter sample_env 100 ''1m'' ''public.validateInvite'' sample_env () sample_ctx =
     ([UnkeyLimit (Ratelimit 100 ''1m'' ''public.validateInvite'' ''root'') ''10.0.0.1''],
      Inl (TRPCError TOO_MANY_REQUESTS ''Too many requests, please try again later''))
   \<and> createRatelimiter bare_env 100 ''1m'' ''public.validateInvite'' sample_env ()
         (sample_ctx\<lparr>event := sample_event\<lparr>requestIP := None\<rparr>\<rparr>) =
       ([UnkeyLimit NoopRatelimit ''unknown''],
        Inr (sample_ctx\<lparr>event := sample_event\<lparr>requestIP := None\<rparr>\<rparr>))"
  using
    createRatelimiter_contract [where ctx = sample_ctx and ?env0.0 = sample_env and limit = 100
      and duration = "''1m''" and namespace = "''public.validateInvite''" and env = sample_env
      and inp = "()"]
    createRatelimiter_contract [where ctx = "sample_ctx\<lparr>event := sample_event\<lparr>requestIP := None\<rparr>\<rparr>"
      and ?env0.0 = bare_env and limit = 100 and duration = "''1m''"
      and namespace = "''public.validateInvite''" and env = sample_env and inp = "()"]
  by (simp add: sample_env_def bare_env_def sample_ctx_def sample_event_def getRequestIP_def
        prod_eq_iff Let_def)

section \<open>The composition of the procedures\<close>

lemma foldl_upd_map_of:
  "foldl (\<lambda>acc (k, l, d). acc(k \<mapsto> F k l d)) m xs =
     m ++ map_of (rev (map (\<lambda>(k, l, d). (k, F k l d)) xs))"
proof (induction xs rule: rev_induct)
  case Nil
  show ?case by simp
next
  case (snoc x xs)
  then show ?case by (cases x) (auto simp: map_add_def fun_eq_iff)
qed

lemma distinct_publicRateLimits: "distinct (map fst publicRateLimits)"
  by (simp add: publicRateLimits_def)

lemma publicRateLimitedProcedure_lookup:
  assumes "(key, limit, duration) \<in> set publicRateLimits"
  shows "publicRateLimitedProcedure env0 key =
     Some (use (use (input procedure turnstileSchema) turnstileTokenValidation)
             (createRatelimiter env0 limit duration (''public.'' @ key)))"
proof -
  let ?F = "\<lambda>k l d. use (use (input procedure turnstileSchema) turnstileTokenValidation)
             (createRatelimiter env0 l d (''public.'' @ k))"
  let ?ps = "rev (map (\<lambda>(k, l, d). (k, ?F k l d)) publicRateLimits)"
  have e: "map fst ?ps = rev (map fst publicRateLimits)"
    by (simp add: rev_map case_prod_unfold comp_def)
  have "distinct (map fst ?ps)"
    by (simp only: e distinct_rev distinct_publicRateLimits)
  moreover from assms have "(key, ?F key limit duration) \<in> set ?ps"
    by force
  ultimately have "map_of ?ps key = Some (?F key limit duration)"
    by (rule map_of_is_SomeI)
  then show ?thesis
    by (simp add: publicRateLimitedProcedure_def foldl_upd_map_of)
qed

lemma dom_publicRateLimitedProcedure:
  "dom (publicRateLimitedProcedure env0) = fst ` set publicRateLimits"
  unfolding publicRateLimitedProcedure_def foldl_upd_map_of
  by (simp add: dom_map_of_conv_image_fst image_image case_prod_unfold)

lemma public_procedure_run:
  "use (use (input procedure turnstileSchema) turnstileTokenValidation) gate env raw ctx =
     (case turnstileSchema raw of
        None \<Rightarrow> ([], Inl InputRejected)
      | Some inp \<Rightarrow>
          (case turnstileTokenValidation env inp ctx of
             (t1, Inl e) \<Rightarrow> (t1, Inl e)
           | (t1, Inr c1) \<Rightarrow>
               (case gate env inp c1 of
                  (t2, Inl e) \<Rightarrow> (t1 @ t2, Inl e)
                | (t2, Inr c2) \<Rightarrow> (t1 @ t2, Inr (inp, c2)))))"
  by (simp add: use_def input_def procedure_def split: option.split prod.split sum.split)

lemma turnstileSchema_accepts:
  "\<forall>raw. turnstileSchema raw \<noteq> None \<longleftrightarrow> (\<exists>s. raw = RawObject (JStr s))"
proof
  fix raw
  show "turnstileSchema raw \<noteq> None \<longleftrightarrow> (\<exists>s. raw = RawObject (JStr s))"
    by (cases raw rule: turnstileSchema.cases) simp_all
qed

lemma eeProcedure_run:
  "eeProcedure env raw ctx =
     (case isAccountAuthenticated env () ctx of
        (t1, Inl e) \<Rightarrow> (t1, Inl e)
      | (t1, Inr c1) \<Rightarrow>
          (case hasOrgSlug_piped env () c1 of
             (t2, Inl e) \<Rightarrow> (t1 @ t2, Inl e)
           | (t2, Inr c2) \<Rightarrow>
               (case isEeEnabled env () c2 of
                  (t3, Inl e) \<Rightarrow> (t1 @ t2 @ t3, Inl e)
                | (t3, Inr c3) \<Rightarrow> (t1 @ t2 @ t3, Inr ((), c3)))))"
  by (simp add: eeProcedure_def orgProcedure_def hasOrgSlug_def unstable_pipe_def use_def
        procedure_def split: option.split prod.split sum.split)

text \<open>
  Claim C7. The procedures compose their gates in a fixed order. The enterprise procedure
  runs the authentication gate, then the organization membership gate, then the
  feature-flag gate, each on the context the one before forwards, and stops at the first
  that aborts. There is one public rate-limited procedure for each route name of the
  table; each parses the raw input, which is accepted only when it holds the verification
  token as a string, then runs the bot-verification gate, then its own rate limiter gate, built with the
  limit and duration of the route and with the namespace \<open>''public.''\<close> followed by the
  route name.
\<close>

theorem procedures_gate_order:
  "eeProcedure env raw ctx =
     (case isAccountAuthenticated env () ctx of
        (t1, Inl e) \<Rightarrow> (t1, Inl e)
      | (t1, Inr c1) \<Rightarrow>
          (case hasOrgSlug_piped env () c1 of
             (t2, Inl e) \<Rightarrow> (t1 @ t2, Inl e)
           | (t2, Inr c2) \<Rightarrow>
               (case isEeEnabled env () c2 of
                  (t3, Inl e) \<Rightarrow> (t1 @ t2 @ t3, Inl e)
                | (t3, Inr c3) \<Rightarrow> (t1 @ t2 @ t3, Inr ((), c3)))))
   \<and> dom (publicRateLimitedProcedure env0
            :: string \<rightharpoonup> (Env \<Rightarrow> rawInput \<Rightarrow> ('o, 'm) Context_scheme
                 \<Rightarrow> call list \<times> (abort + TurnstileInput \<times> ('o, 'm) Context_scheme)))
       = fst ` set publicRateLimits
   \<and> (\<forall>(key, limit, duration) \<in> set publicRateLimits.
        \<exists>p. publicRateLimitedProcedure env0 key = Some p
          \<and> (\<forall>env raw (pctx :: ('o, 'm) Context_scheme).
                p env raw pctx =
                  (case turnstileSchema raw of
                     None \<Rightarrow> ([], Inl InputRejected)
                   | Some inp \<Rightarrow>
                       (case turnstileTokenValidation env inp pctx of
                          (t1, Inl e) \<Rightarrow> (t1, Inl e)
                        | (t1, Inr c1) \<Rightarrow>
                            (case createRatelimiter env0 limit duration (''public.'' @ key)
                                    env inp c1 of
                               (t2, Inl e) \<Rightarrow> (t1 @ t2, Inl e)
                             | (t2, Inr c2) \<Rightarrow> (t1 @ t2, Inr (inp, c2)))))))
   \<and> (\<forall>raw. turnstileSchema raw \<noteq> None \<longleftrightarrow> (\<exists>s. raw = RawObject (JStr s)))"
proof (intro conjI)
  show "\<forall>(key, limit, duration) \<in> set publicRateLimits.
        \<exists>p. publicRateLimitedProcedure env0 key = Some p
          \<and> (\<forall>env raw (pctx :: ('o, 'm) Context_scheme).
                p env raw pctx =
                  (case turnstileSchema raw of
                     None \<Rightarrow> ([], Inl InputRejected)
                   | Some inp \<Rightarrow>
                       (case turnstileTokenValidation env inp pctx of
                          (t1, Inl e) \<Rightarrow> (t1, Inl e)
                        | (t1, Inr c1) \<Rightarrow>
                            (case createRatelimiter env0 limit duration (''public.'' @ key)
                                    env inp c1 of
                               (t2, Inl e) \<Rightarrow> (t1 @ t2, Inl e)
                             | (t2, Inr c2) \<Rightarrow> (t1 @ t2, Inr (inp, c2))))))"
  proof (intro ballI, clarify)
    fix key limit duration
    assume "(key, limit, duration) \<in> set publicRateLimits"
    then have "publicRateLimitedProcedure env0 key =
       Some (use (use (input procedure turnstileSchema) turnstileTokenValidation)
               (createRatelimiter env0 limit duration (''public.'' @ key)))"
      by (rule publicRateLimitedProcedure_lookup)
    then show "\<exists>p. publicRateLimitedProcedure env0 key = Some p
          \<and> (\<forall>env raw (pctx :: ('o, 'm) Context_scheme).
                p env raw pctx =
                  (case turnstileSchema raw of
                     None \<Rightarrow> ([], Inl InputRejected)
                   | Some inp \<Rightarrow>
                       (case turnstileTokenValidation env inp pctx of
                          (t1, Inl e) \<Rightarrow> (t1, Inl e)
                        | (t1, Inr c1) \<Rightarrow>
                            (case createRatelimiter env0 limit duration (''public.'' @ key)
                                    env inp c1 of
                               (t2, Inl e) \<Rightarrow> (t1 @ t2, Inl e)
                             | (t2, Inr c2) \<Rightarrow> (t1 @ t2, Inr (inp, c2))))))"
      by (intro exI [where x = "use (use (input procedure turnstileSchema) turnstileTokenValidation)
               (createRatelimiter env0 limit duration (''public.'' @ key))"] conjI allI)
        (simp_all only: public_procedure_run)
  qed
qed (rule eeProcedure_run dom_publicRateLimitedProcedure turnstileSchema_accepts)+

theorem procedures_gate_order_witness:
  "eeProcedure bare_env () sample_ctx =
     ([MembersFind (JNum 7)],
      Inl (TRPCError PRECONDITION_FAILED
             ''Enterprise Edition features are disabled on this server''))
   \<and> (\<exists>p. publicRateLimitedProcedure sample_env ''validateInvite'' = Some p
         \<and> p sample_env (RawObject (JStr ''ok'')) sample_ctx =
             ([VerifyTurnstileToken ''ok'' ''secret'',
               UnkeyLimit (Ratelimit 100 ''1m'' ''public.validateInvite'' ''root'') ''10.0.0.1''],
              Inl (TRPCError TOO_MANY_REQUESTS ''Too many requests, please try again later'')))"
proof -
  note t = procedures_gate_order [where env = bare_env and raw = "()" and ctx = sample_ctx
      and ?env0.0 = sample_env and ?'o = OrgContext and ?'m = unit]
  have m: "(''validateInvite'', 100, ''1m'') \<in> set publicRateLimits"
    by (simp add: publicRateLimits_def)
  from t [THEN conjunct1] have "eeProcedure bare_env () sample_ctx =
     ([MembersFind (JNum 7)],
      Inl (TRPCError PRECONDITION_FAILED
             ''Enterprise Edition features are disabled on this server''))"
    by (simp add: isAccountAuthenticated_def hasOrgSlug_piped_def isEeEnabled_def
          optional_account_id_def sample_ctx_def sample_account_def sample_org_def
          bare_env_def sample_env_def Let_def)
  moreover from t [THEN conjunct2, THEN conjunct2] m obtain p where
    p: "publicRateLimitedProcedure sample_env ''validateInvite'' = Some p"
    and r: "\<And>env raw (pctx :: OrgContext Context).
                p env raw pctx =
                  (case turnstileSchema raw of
                     None \<Rightarrow> ([], Inl InputRejected)
                   | Some inp \<Rightarrow>
                       (case turnstileTokenValidation env inp pctx of
                          (t1, Inl e) \<Rightarrow> (t1, Inl e)
                        | (t1, Inr c1) \<Rightarrow>
                            (case createRatelimiter sample_env 100 ''1m''
                                    (''public.'' @ ''validateInvite'') env inp c1 of
                               (t2, Inl e) \<Rightarrow> (t1 @ t2, Inl e)
                             | (t2, Inr c2) \<Rightarrow> (t1 @ t2, Inr (inp, c2)))))"
    by fastforce
  have "p sample_env (RawObject (JStr ''ok'')) sample_ctx =
             ([VerifyTurnstileToken ''ok'' ''secret'',
               UnkeyLimit (Ratelimit 100 ''1m'' ''public.validateInvite'' ''root'') ''10.0.0.1''],
              Inl (TRPCError TOO_MANY_REQUESTS ''Too many requests, please try again later''))"
    by (simp add: r turnstileTokenValidation_def createRatelimiter_def getRequestIP_def
          sample_env_def sample_ctx_def sample_event_def Let_def)
  ultimately show ?thesis using p by blast
qed

section \<open>The empty verification token\<close>

text \<open>
  Claim C10. When a verification secret is configured and the runtime mode is not
  development, a caller who supplies the empty string as verification token, which the
  schema of the public procedures accepts, is rejected by the bot-verification gate with
  FORBIDDEN, as a caller who supplies no token is, and the external verification service
  is not called for that request: no call of it is among the calls made by the gate or by
  any public procedure.
\<close>

theorem turnstile_empty_token_forbidden:
  assumes "truthy_str (turnstile_secretKey (useRuntimeConfig env))"
    and "NODE_ENV env \<noteq> Some ''development''"
  shows "turnstileSchema (RawObject (JStr '''')) = Some \<lparr>turnstileToken = Some ''''\<rparr>
    \<and> turnstileTokenValidation env \<lparr>turnstileToken = Some ''''\<rparr> ctx =
        ([], Inl (TRPCError FORBIDDEN ''Missing Turnstile Verification Token''))
    \<and> turnstileTokenValidation env \<lparr>turnstileToken = Some ''''\<rparr> ctx =
        turnstileTokenValidation env \<lparr>turnstileToken = None\<rparr> ctx
    \<and> (\<forall>(key, limit, duration) \<in> set publicRateLimits.
          \<exists>p. publicRateLimitedProcedure env0 key = Some p
            \<and> p env (RawObject (JStr '''')) ctx =
                ([], Inl (TRPCError FORBIDDEN ''Missing Turnstile Verification Token''))
            \<and> (\<forall>response secretKey.
                  VerifyTurnstileToken response secretKey
                    \<notin> set (fst (p env (RawObject (JStr '''')) ctx))))"
proof -
  have g: "turnstileTokenValidation env \<lparr>turnstileToken = Some ''''\<rparr> ctx =
        ([], Inl (TRPCError FORBIDDEN ''Missing Turnstile Verification Token''))"
    using assms by (simp add: turnstileTokenValidation_def)
  have n: "turnstileTokenValidation env \<lparr>turnstileToken = None\<rparr> ctx =
        ([], Inl (TRPCError FORBIDDEN ''Missing Turnstile Verification Token''))"
    using assms by (simp add: turnstileTokenValidation_def)
  have b: "\<forall>(key, limit, duration) \<in> set publicRateLimits.
          \<exists>p. publicRateLimitedProcedure env0 key = Some p
            \<and> p env (RawObject (JStr [])) ctx =
                ([], Inl (TRPCError FORBIDDEN ''Missing Turnstile Verification Token''))
            \<and> (\<forall>response secretKey.
                  VerifyTurnstileToken response secretKey
                    \<notin> set (fst (p env (RawObject (JStr [])) ctx)))"
  proof (intro ballI, clarify)
    fix key limit duration
    assume "(key, limit, duration) \<in> set publicRateLimits"
    then show "\<exists>p. publicRateLimitedProcedure env0 key = Some p
            \<and> p env (RawObject (JStr [])) ctx =
                ([], Inl (TRPCError FORBIDDEN ''Missing Turnstile Verification Token''))
            \<and> (\<forall>response secretKey.
                  VerifyTurnstileToken response secretKey
                    \<notin> set (fst (p env (RawObject (JStr [])) ctx)))"
      by (simp add: publicRateLimitedProcedure_lookup public_procedure_run g)
  qed
  from g n b show ?thesis
    by simp
qed

theorem turnstile_empty_token_forbidden_witness:
  "turnstileTokenValidation sample_env \<lparr>turnstileToken = Some ''''\<rparr> sample_ctx =
     ([], Inl (TRPCError FORBIDDEN ''Missing Turnstile Verification Token''))
   \<and> (\<exists>p. publicRateLimitedProcedure bare_env ''validateInvite'' = Some p
         \<and> p sample_env (RawObject (JStr '''')) sample_ctx =
             ([], Inl (TRPCError FORBIDDEN ''Missing Turnstile Verification Token'')))"
proof -
  have s: "truthy_str (turnstile_secretKey (useRuntimeConfig sample_env))"
    and d: "NODE_ENV sample_env \<noteq> Some ''development''"
    by (simp_all add: sample_env_def)
  have m: "(''validateInvite'', 100, ''1m'') \<in> set publicRateLimits"
    by (simp add: publicRateLimits_def)
  note t = turnstile_empty_token_forbidden [OF s d, where ctx = sample_ctx and ?env0.0 = bare_env]
  from t [THEN conjunct2, THEN conjunct2, THEN conjunct2] m
  have "\<exists>p. publicRateLimitedProcedure bare_env ''validateInvite'' = Some p
         \<and> p sample_env (RawObject (JStr '''')) sample_ctx =
             ([], Inl (TRPCError FORBIDDEN ''Missing Turnstile Verification Token''))"
    by fastforce
  with t show ?thesis by blast
qed

section \<open>The session resolver\<close>

text \<open>
  Claim C8. For every incoming request, the session resolver sets the identity to null
  when the session cookie is absent, and also when the cookie is present and the lookup in
  the session store returns no record; when a record is found, it attaches an identity
  whose id is the identifier embedded in the record (\<^verbatim>\<open>attributes.user.id\<close>) and
  whose session is the whole record. The handler tests the cookie with \<^verbatim>\<open>!\<close>, so
  that a cookie with an empty value counts as absent: no lookup is made for it.
\<close>

theorem sessionHandler_identity:
  "(\<not> truthy_str (getCookie ev ''unsession'') \<longrightarrow>
      sessionHandler sessionStorage ev = ([], ev\<lparr>context_user := None\<rparr>))
   \<and>
   (\<forall>sessionCookie.
      getCookie ev ''unsession'' = Some sessionCookie \<and> sessionStorage sessionCookie = None \<longrightarrow>
        context_user (snd (sessionHandler sessionStorage ev)) = None)
   \<and>
   (\<forall>sessionCookie sessionObject.
      getCookie ev ''unsession'' = Some sessionCookie \<and> sessionCookie \<noteq> []
      \<and> sessionStorage sessionCookie = Some sessionObject \<longrightarrow>
        sessionHandler sessionStorage ev =
          ([StorageGetItem sessionCookie],
           ev\<lparr>context_user :=
                Some \<lparr>resolved_id = user_id (user (stored_attributes sessionObject)),
                      resolved_session = sessionObject\<rparr>\<rparr>))"
  by (simp add: sessionHandler_def Let_def)

theorem sessionHandler_identity_witness:
  "sessionHandler Map.empty (sample_event\<lparr>cookies := Map.empty\<rparr>) =
     ([], sample_event\<lparr>cookies := Map.empty, context_user := None\<rparr>)
   \<and> context_user (snd (sessionHandler Map.empty sample_event)) = None
   \<and> sessionHandler [''s1'' \<mapsto> sample_session] sample_event =
       ([StorageGetItem ''s1''],
        sample_event\<lparr>context_user := Some \<lparr>resolved_id = JNum 7, resolved_session = sample_session\<rparr>\<rparr>)"
  using sessionHandler_identity [of "sample_event\<lparr>cookies := Map.empty\<rparr>" Map.empty]
    sessionHandler_identity [of sample_event Map.empty]
    sessionHandler_identity [of sample_event "[''s1'' \<mapsto> sample_session]"]
  by (simp add: getCookie_def sample_event_def sample_session_def)

section \<open>The context along the gates\<close>




section \<open>When the configuration is read\<close>

text \<open>
  Claim C6, as amended. The enterprise-feature flag, the verification secret and the
  runtime mode are read at the time of each gated call: the outcome of the feature-flag
  gate and of the bot-verification gate follows the environment of the call. The root
  credential of the rate limiter is read once, when the rate limiter gate is built, and
  the limiter is chosen then: the remote limiter with the credential, the limit, the
  duration and the namespace when the credential is configured, the no-op limiter
  otherwise. Every call of the gate goes to that limiter; the configuration of the call
  has no influence on the gate, and two gates built under the same root credential are the
  same gate.
\<close>

theorem configuration_read_times:
  "(forwards (isEeEnabled env inp ctx) \<longleftrightarrow>
      (case billing (useRuntimeConfig env) of None \<Rightarrow> False | Some b \<Rightarrow> enabled b))
   \<and>
   (\<not> truthy_str (turnstile_secretKey (useRuntimeConfig env)) \<longrightarrow>
      forwards (turnstileTokenValidation env tinp ctx))
   \<and>
   (truthy_str (turnstile_secretKey (useRuntimeConfig env)) \<and> \<not> truthy_str (turnstileToken tinp) \<longrightarrow>
      (forwards (turnstileTokenValidation env tinp ctx) \<longleftrightarrow> NODE_ENV env = Some ''development''))
   \<and>
   (\<forall>cfg. createRatelimiter env0 limit duration namespace (env\<lparr>useRuntimeConfig := cfg\<rparr>) inp ctx'
         = createRatelimiter env0 limit duration namespace env inp ctx')
   \<and>
   (\<forall>env1. unkey_rootKey (useRuntimeConfig env1) = unkey_rootKey (useRuntimeConfig env0) \<longrightarrow>
         createRatelimiter env1 limit duration namespace env inp ctx'
         = createRatelimiter env0 limit duration namespace env inp ctx')
   \<and>
   (let unkey = (if truthy_str (unkey_rootKey (useRuntimeConfig env0))
                 then Ratelimit limit duration namespace (the (unkey_rootKey (useRuntimeConfig env0)))
                 else NoopRatelimit);
        key = (if truthy_str (getRequestIP (event ctx')) then the (getRequestIP (event ctx'))
               else ''unknown'')
    in createRatelimiter env0 limit duration namespace env inp ctx' =
         ([UnkeyLimit unkey key],
          if limiter_limit env unkey key then Inr ctx'
          else Inl (TRPCError TOO_MANY_REQUESTS ''Too many requests, please try again later'')))"
  by (simp add: forwards_def isEeEnabled_def turnstileTokenValidation_def createRatelimiter_def
        Let_def split: option.split)

theorem configuration_read_times_witness:
  "forwards (isEeEnabled sample_env () sample_ctx)
   \<and> \<not> forwards (isEeEnabled bare_env () sample_ctx)
   \<and> forwards (turnstileTokenValidation bare_env \<lparr>turnstileToken = None\<rparr> sample_ctx)
   \<and> \<not> forwards (turnstileTokenValidation sample_env \<lparr>turnstileToken = None\<rparr> sample_ctx)
   \<and> createRatelimiter bare_env 100 ''1m'' ''public.validateInvite'' sample_env () sample_ctx
       = createRatelimiter bare_env 100 ''1m'' ''public.validateInvite'' bare_env () sample_ctx
   \<and> createRatelimiter sample_env 100 ''1m'' ''public.validateInvite'' bare_env () sample_ctx =
       ([UnkeyLimit (Ratelimit 100 ''1m'' ''public.validateInvite'' ''root'') ''10.0.0.1''],
        Inl (TRPCError TOO_MANY_REQUESTS ''Too many requests, please try again later''))
   \<and> createRatelimiter bare_env 100 ''1m'' ''public.validateInvite'' sample_env () sample_ctx =
       ([UnkeyLimit NoopRatelimit ''10.0.0.1''], Inr sample_ctx)"
proof -
  note a = configuration_read_times [where env = sample_env and inp = "()" and ctx = sample_ctx
      and tinp = "\<lparr>turnstileToken = None\<rparr>" and ?env0.0 = bare_env and limit = 100
      and duration = "''1m''" and namespace = "''public.validateInvite''" and ctx' = sample_ctx]
  note b = configuration_read_times [where env = bare_env and inp = "()" and ctx = sample_ctx
      and tinp = "\<lparr>turnstileToken = None\<rparr>" and ?env0.0 = sample_env and limit = 100
      and duration = "''1m''" and namespace = "''public.validateInvite''" and ctx' = sample_ctx]
  have e: "bare_env = sample_env\<lparr>useRuntimeConfig := useRuntimeConfig bare_env\<rparr>"
    by (simp add: bare_env_def)
  from a have "createRatelimiter bare_env 100 ''1m'' ''public.validateInvite''
        (sample_env\<lparr>useRuntimeConfig := useRuntimeConfig bare_env\<rparr>) () sample_ctx
       = createRatelimiter bare_env 100 ''1m'' ''public.validateInvite'' sample_env () sample_ctx"
    by blast
  with e have "createRatelimiter bare_env 100 ''1m'' ''public.validateInvite'' sample_env () sample_ctx
       = createRatelimiter bare_env 100 ''1m'' ''public.validateInvite'' bare_env () sample_ctx"
    by simp
  moreover from a b have "forwards (isEeEnabled sample_env () sample_ctx)
   \<and> \<not> forwards (isEeEnabled bare_env () sample_ctx)
   \<and> forwards (turnstileTokenValidation bare_env \<lparr>turnstileToken = None\<rparr> sample_ctx)
   \<and> \<not> forwards (turnstileTokenValidation sample_env \<lparr>turnstileToken = None\<rparr> sample_ctx)"
    by (simp add: sample_env_def bare_env_def)
  moreover
  from b [THEN conjunct2, THEN conjunct2, THEN conjunct2, THEN conjunct2, THEN conjunct2]
  have "createRatelimiter sample_env 100 ''1m'' ''public.validateInvite'' bare_env () sample_ctx =
       ([UnkeyLimit (Ratelimit 100 ''1m'' ''public.validateInvite'' ''root'') ''10.0.0.1''],
        Inl (TRPCError TOO_MANY_REQUESTS ''Too many requests, please try again later''))"
    by (simp add: Let_def getRequestIP_def sample_env_def bare_env_def sample_ctx_def
          sample_event_def)
  moreover
  from a [THEN conjunct2, THEN conjunct2, THEN conjunct2, THEN conjunct2, THEN conjunct2]
  have "createRatelimiter bare_env 100 ''1m'' ''public.validateInvite'' sample_env () sample_ctx =
       ([UnkeyLimit NoopRatelimit ''10.0.0.1''], Inr sample_ctx)"
    by (simp add: Let_def getRequestIP_def sample_env_def bare_env_def sample_ctx_def
          sample_event_def)
  ultimately show ?thesis by blast
qed

text \<open>
  Claim C6, as stated, says that the root credential too is read at each call, so that a
  change of it after the start affects the following checks. It does not: a gate built
  while no root credential was configured keeps the no-op limiter and forwards a call made
  when a credential is configured and the quota service rejects, where a gate that read
  the credential at the call would abort with TOO_MANY_REQUESTS.
\<close>

theorem root_credential_read_per_call_counterexample:
  "createRatelimiter bare_env 100 ''1m'' ''public.validateInvite'' sample_env () sample_ctx =
     ([UnkeyLimit NoopRatelimit ''10.0.0.1''], Inr sample_ctx)
   \<and> ratelimiter_read_per_call 100 ''1m'' ''public.validateInvite'' sample_env () sample_ctx =
       ([UnkeyLimit (Ratelimit 100 ''1m'' ''public.validateInvite'' ''root'') ''10.0.0.1''],
        Inl (TRPCError TOO_MANY_REQUESTS ''Too many requests, please try again later''))
   \<and> createRatelimiter bare_env 100 ''1m'' ''public.validateInvite'' sample_env () sample_ctx
       \<noteq> ratelimiter_read_per_call 100 ''1m'' ''public.validateInvite'' sample_env () sample_ctx"
  by (simp add: ratelimiter_read_per_call_def createRatelimiter_def getRequestIP_def Let_def
        bare_env_def sample_env_def sample_ctx_def sample_event_def)

end
